theory Spec2Isabelle
  imports Complex_Main "HOL-Library.Char_ord" "HOL-Library.List_Lexorder" "HOL-Library.Log_Nat"
begin

section \<open>Dog DNA parentage analysis: the model\<close>

text \<open>
  A shallow embedding of the class \<open>DogDNAParentageAnalyzer\<close> of
  \<^verbatim>\<open>scripts/dog_parentage_analysis.py\<close>: \<open>parse_genotype\<close>,
  \<open>check_mendelian_inheritance\<close> and \<open>analyze_parentage\<close>. Reading the workbooks
  (\<open>load_dog_profile\<close>), the export of the report and the console text, the printed
  conclusion apart, are outside the model.

  A Python \<open>str\<close> is a \<open>string\<close>; a \<open>char\<close> is read as the code point of the
  same number (U+0000 to U+00FF). Python compares strings lexicographically by code point,
  which is the order of \<open>HOL-Library.List_Lexorder\<close> over \<open>HOL-Library.Char_ord\<close>.
  \<open>sorted\<close> over a total order returns the one sorted permutation, here \<open>sort\<close>.
\<close>

subsection \<open>Strings: \<open>str.isspace\<close>, \<open>str.strip\<close>, \<open>str.split\<close>\<close>

text \<open>
  The code points below U+0100 that Python counts as whitespace: TAB, LF, VT, FF, CR,
  the separators U+001C to U+001F, SPACE, NEL (U+0085) and NBSP (U+00A0).
\<close>

definition str_isspace :: "char \<Rightarrow> bool" where
  "str_isspace c \<longleftrightarrow>
     c \<in> set [CHR 0x09, CHR 0x0A, CHR 0x0B, CHR 0x0C, CHR 0x0D,
              CHR 0x1C, CHR 0x1D, CHR 0x1E, CHR 0x1F, CHR 0x20, CHR 0x85, CHR 0xA0]"

text \<open>\<open>s.strip()\<close>: drop the leading whitespace, then the trailing whitespace.\<close>

definition str_strip :: "string \<Rightarrow> string" where
  "str_strip s = rev (dropWhile str_isspace (rev (dropWhile str_isspace s)))"

text \<open>
  \<open>s.split(sep)\<close> for a one-character separator: one token more than there are
  occurrences of \<open>sep\<close>, empty tokens kept. The accumulator \<open>tok\<close> is the current
  token, reversed.
\<close>

fun split_from :: "char \<Rightarrow> string \<Rightarrow> string \<Rightarrow> string list" where
  "split_from sep tok [] = [rev tok]"
| "split_from sep tok (c # cs) =
     (if c = sep then rev tok # split_from sep [] cs else split_from sep (c # tok) cs)"

definition str_split :: "string \<Rightarrow> char \<Rightarrow> string list" where
  "str_split s sep = split_from sep [] s"

subsection \<open>\<open>parse_genotype\<close>\<close>

text \<open>
  A raw cell of the Genotype column. \<open>Missing\<close> stands for the values on which
  \<open>pd.isna\<close> holds (\<open>None\<close>, NaN); \<open>Text s\<close> is the string \<open>s\<close>, for which
  \<open>str(s)\<close> is \<open>s\<close> itself. The parsed genotype is the sorted list of allele tokens;
  \<open>None\<close> is Python's \<open>None\<close>.
\<close>

datatype cell = Missing | Text string

type_synonym genotype = "string list"

definition parse_genotype :: "cell \<Rightarrow> genotype option" where
  "parse_genotype genotype_str =
     (case genotype_str of
        Missing \<Rightarrow> None
      | Text raw \<Rightarrow>
          if raw = [] then None
          else
            let s = str_strip raw;
                alleles =
                  (if CHR ''/'' \<in> set s then str_split s CHR ''/''
                   else if CHR ''|'' \<in> set s then str_split s CHR ''|''
                   else [s, s])
            in Some (sort (map str_strip alleles)))"

subsection \<open>\<open>check_mendelian_inheritance\<close>\<close>

text \<open>Python truthiness of a parsed genotype: \<open>None\<close> and the empty list are false.\<close>

definition truthy :: "genotype option \<Rightarrow> bool" where
  "truthy g = (case g of None \<Rightarrow> False | Some alleles \<Rightarrow> alleles \<noteq> [])"

text \<open>
  The second component of the result is the detail message. The f-string's rendering is
  not modelled; what it shows is kept: the set \<open>expected\<close> and the tuple \<open>actual\<close>.
\<close>

datatype detail = Missing_genotype_data | Expected_Got "genotype set" genotype

definition possible_offspring :: "genotype \<Rightarrow> genotype \<Rightarrow> genotype list" where
  "possible_offspring parent1_genotype parent2_genotype =
     concat (map (\<lambda>p1_allele. map (\<lambda>p2_allele. sort [p1_allele, p2_allele]) parent2_genotype)
                 parent1_genotype)"

definition check_mendelian_inheritance ::
  "genotype option \<Rightarrow> genotype option \<Rightarrow> genotype option \<Rightarrow> bool \<times> detail" where
  "check_mendelian_inheritance parent1_genotype parent2_genotype offspring_genotype =
     (case (parent1_genotype, parent2_genotype, offspring_genotype) of
        (Some p1, Some p2, Some off) \<Rightarrow>
          if \<not> (p1 \<noteq> [] \<and> p2 \<noteq> [] \<and> off \<noteq> []) then (False, Missing_genotype_data)
          else
            let possible = possible_offspring p1 p2;
                offspring_sorted = sort off;
                is_consistent = (offspring_sorted \<in> set possible)
            in (is_consistent, Expected_Got (set possible) offspring_sorted)
      | _ \<Rightarrow> (False, Missing_genotype_data))"

subsection \<open>The analyzer's state and the result of an analysis\<close>

text \<open>
  A loaded profile (an entry of \<open>self.profiles\<close>). Of the data frame \<open>data\<close> the rows'
  \<open>MarkerID\<close> and \<open>Genotype\<close> columns are kept, in row order. \<open>'m\<close> is the type of the
  marker identifiers; the analysis runs at \<open>marker_id\<close>, an integer or a string.
\<close>

datatype marker_id = Int_id int | Str_id string

record 'm profile =
  data :: "('m \<times> cell) list"
  excel_file :: string
  profile_type :: string
  marker_count :: nat

record 'm marker_result =
  marker :: 'm
  mother :: "genotype option"
  father :: "genotype option"
  offspring :: "genotype option"
  consistent :: bool
  details :: detail

text \<open>
  A Python \<open>float\<close> is an IEEE double: here the rational it stands for, or infinity. Only
  values that are not negative arise (the operands are counts). The rate stored in the
  result is a float, or the \<open>int\<close> 0 when nothing was testable.
\<close>

datatype py_float = Finite rat | Inf

datatype py_number = Int_number int | Float_number py_float

text \<open>
  The dictionary \<open>results\<close>. The key \<open>consistency_rate\<close> is absent (\<open>None\<close>) until the
  statistics are calculated.
\<close>

record 'm results =
  total_common_markers :: nat
  testable_markers :: nat
  consistent_markers :: nat
  inconsistent_markers :: nat
  exclusions :: "'m marker_result list"
  marker_details :: "'m marker_result list"
  confidence_level :: string
  consistency_rate :: "py_number option"

text \<open>The object's fields; \<open>analysis_results = None\<close> is the initial empty dictionary.\<close>

record 'm analyzer =
  profiles :: "string \<rightharpoonup> 'm profile"
  analysis_results :: "'m results option"

subsection \<open>Faults\<close>

datatype py_error = KeyError | ZeroDivisionError | OverflowError | TypeError

text \<open>\<open>d[k]\<close> raises \<open>KeyError\<close> on an absent key.\<close>

definition getitem :: "('k \<rightharpoonup> 'v) \<Rightarrow> 'k \<Rightarrow> py_error + 'v" where
  "getitem d k = (case d k of None \<Rightarrow> Inl KeyError | Some v \<Rightarrow> Inr v)"

subsection \<open>Floating-point arithmetic\<close>

text \<open>
  Rounding a positive rational to the nearest double, ties to the even significand (the
  IEEE default, which Python uses). \<open>floor_log2 x\<close> is the exponent \<open>e\<close> with \<open>x\<close> at least
  2 to the \<open>e\<close> and below 2 to the \<open>e + 1\<close>, found from the bit lengths of numerator and
  denominator. A double has 53 significant bits, so its last place is worth 2 to the
  \<open>e - 52\<close>; below the smallest normal exponent -1022 the spacing stays that of the
  subnormals. A result of 2 to the 1024 or more is out of range.
\<close>

definition floor_log2 :: "rat \<Rightarrow> int" where
  "floor_log2 x =
     (let (p, q) = quotient_of x;
          d = bitlen p - bitlen q
      in if 2 powi d \<le> x then d else d - 1)"

definition round_half_even :: "rat \<Rightarrow> int" where
  "round_half_even z =
     (let f = \<lfloor>z\<rfloor>; r = z - of_int f
      in if r < 1 / 2 then f else if 1 / 2 < r then f + 1 else if even f then f else f + 1)"

definition round_to_double :: "rat \<Rightarrow> py_float" where
  "round_to_double x =
     (if x \<le> 0 then Finite 0
      else
        let e = max (floor_log2 x) (- 1022);
            ulp = 2 powi (e - 52);
            y = of_int (round_half_even (x / ulp)) * ulp
        in if 2 powi 1024 \<le> y then Inf else Finite y)"

text \<open>
  \<open>a / b\<close> on two \<open>int\<close>s that are not negative: \<open>ZeroDivisionError\<close> on \<open>b = 0\<close>, else
  the correctly rounded quotient, \<open>OverflowError\<close> when that is out of range.
\<close>

definition truediv :: "nat \<Rightarrow> nat \<Rightarrow> py_error + py_float" where
  "truediv a b =
     (if b = 0 then Inl ZeroDivisionError
      else (case round_to_double (of_nat a / of_nat b) of
              Inf \<Rightarrow> Inl OverflowError
            | Finite q \<Rightarrow> Inr (Finite q)))"

text \<open>
  \<open>x * 100\<close> on a float \<open>x\<close>: the \<open>int\<close> 100 is the double 100.0 exactly, and the product
  is rounded; float multiplication does not raise.
\<close>

definition float_times_100 :: "py_float \<Rightarrow> py_float" where
  "float_times_100 x = (case x of Inf \<Rightarrow> Inf | Finite q \<Rightarrow> round_to_double (q * 100))"

text \<open>
  \<open>frame.set_index('MarkerID')['Genotype'].to_dict()\<close>: the rows are entered in order, so
  the last row of a repeated marker wins.
\<close>

definition to_dict :: "('m \<times> cell) list \<Rightarrow> ('m \<rightharpoonup> cell)" where
  "to_dict rows = foldl (\<lambda>d (k, v). d(k \<mapsto> v)) Map.empty rows"

subsection \<open>\<open>analyze_parentage\<close>\<close>

text \<open>
  The order of the marker identifiers: integers by value, strings by code point. Python
  has no order between an integer and a string; here the integers come first, which
  \<open>py_sorted\<close> below never relies on.
\<close>

instantiation marker_id :: linorder
begin

fun less_eq_marker_id :: "marker_id \<Rightarrow> marker_id \<Rightarrow> bool" where
  "less_eq_marker_id (Int_id i) (Int_id j) \<longleftrightarrow> i \<le> j"
| "less_eq_marker_id (Str_id s) (Str_id t) \<longleftrightarrow> s \<le> t"
| "less_eq_marker_id (Int_id i) (Str_id t) \<longleftrightarrow> True"
| "less_eq_marker_id (Str_id s) (Int_id j) \<longleftrightarrow> False"

definition less_marker_id :: "marker_id \<Rightarrow> marker_id \<Rightarrow> bool" where
  "less_marker_id x y \<longleftrightarrow> x \<le> y \<and> \<not> y \<le> x"

instance
proof
  fix x y z :: marker_id
  show "x < y \<longleftrightarrow> x \<le> y \<and> \<not> y \<le> x" by (rule less_marker_id_def)
  show "x \<le> x" by (cases x) simp_all
  show "x \<le> y \<Longrightarrow> y \<le> z \<Longrightarrow> x \<le> z" by (cases x; cases y; cases z) simp_all
  show "x \<le> y \<Longrightarrow> y \<le> x \<Longrightarrow> x = y" by (cases x; cases y) simp_all
  show "x \<le> y \<or> y \<le> x" by (cases x; cases y) auto
qed

end

text \<open>
  \<open>sorted(s)\<close> on a set of marker identifiers: \<open>TypeError\<close> when the set holds an integer
  and a string (two such elements are compared at some point), else the sorted list.
\<close>

definition is_int_id :: "marker_id \<Rightarrow> bool" where
  "is_int_id m = (case m of Int_id i \<Rightarrow> True | Str_id s \<Rightarrow> False)"

definition mixed_types :: "marker_id set \<Rightarrow> bool" where
  "mixed_types S \<longleftrightarrow> (\<exists>x \<in> S. is_int_id x) \<and> (\<exists>y \<in> S. \<not> is_int_id y)"

definition py_sorted :: "marker_id set \<Rightarrow> py_error + marker_id list" where
  "py_sorted S = (if mixed_types S then Inl TypeError else Inr (sorted_list_of_set S))"

text \<open>The markers present in all three data frames.\<close>

definition common_markers ::
  "('m \<times> cell) list \<Rightarrow> ('m \<times> cell) list \<Rightarrow> ('m \<times> cell) list \<Rightarrow> 'm set" where
  "common_markers mother_data father_data offspring_data =
     set (map fst mother_data) \<inter> set (map fst father_data) \<inter> set (map fst offspring_data)"

text \<open>The body of the loop over the sorted common markers, on the dictionary \<open>res\<close>.\<close>

definition analyze_marker ::
  "('m \<rightharpoonup> cell) \<Rightarrow> ('m \<rightharpoonup> cell) \<Rightarrow> ('m \<rightharpoonup> cell) \<Rightarrow> 'm results \<Rightarrow> 'm
     \<Rightarrow> py_error + 'm results" where
  "analyze_marker mother_lookup father_lookup offspring_lookup res marker_id =
     (case getitem mother_lookup marker_id of
        Inl e \<Rightarrow> Inl e
      | Inr mother_cell \<Rightarrow>
     (case getitem father_lookup marker_id of
        Inl e \<Rightarrow> Inl e
      | Inr father_cell \<Rightarrow>
     (case getitem offspring_lookup marker_id of
        Inl e \<Rightarrow> Inl e
      | Inr offspring_cell \<Rightarrow>
        (let mother_geno = parse_genotype mother_cell;
             father_geno = parse_genotype father_cell;
             offspring_geno = parse_genotype offspring_cell
         in
           if \<not> (truthy mother_geno \<and> truthy father_geno \<and> truthy offspring_geno) then Inr res
           else
             (let res1 = res\<lparr>testable_markers := testable_markers res + 1\<rparr>;
                  checked = check_mendelian_inheritance mother_geno father_geno offspring_geno;
                  is_consistent = fst checked;
                  marker_result =
                    \<lparr>marker = marker_id, mother = mother_geno, father = father_geno,
                     offspring = offspring_geno, consistent = is_consistent,
                     details = snd checked\<rparr>;
                  res2 = res1\<lparr>marker_details := marker_details res1 @ [marker_result]\<rparr>
              in
                if is_consistent
                then Inr (res2\<lparr>consistent_markers := consistent_markers res2 + 1\<rparr>)
                else Inr (res2\<lparr>inconsistent_markers := inconsistent_markers res2 + 1,
                                exclusions := exclusions res2 @ [marker_result]\<rparr>))))))"

fun analyze_markers ::
  "('m \<rightharpoonup> cell) \<Rightarrow> ('m \<rightharpoonup> cell) \<Rightarrow> ('m \<rightharpoonup> cell) \<Rightarrow> 'm list \<Rightarrow> 'm results
     \<Rightarrow> py_error + 'm results" where
  "analyze_markers mother_lookup father_lookup offspring_lookup [] res = Inr res"
| "analyze_markers mother_lookup father_lookup offspring_lookup (marker_id # rest) res =
     (case analyze_marker mother_lookup father_lookup offspring_lookup res marker_id of
        Inl e \<Rightarrow> Inl e
      | Inr res' \<Rightarrow> analyze_markers mother_lookup father_lookup offspring_lookup rest res')"

text \<open>"Calculate statistics": the guarded division.\<close>

definition calculate_statistics :: "'m results \<Rightarrow> py_error + 'm results" where
  "calculate_statistics res =
     (if testable_markers res > 0
      then (case truediv (consistent_markers res) (testable_markers res) of
              Inl e \<Rightarrow> Inl e
            | Inr q \<Rightarrow>
                Inr (res\<lparr>consistency_rate := Some (Float_number (float_times_100 q))\<rparr>))
      else Inr (res\<lparr>consistency_rate := Some (Int_number 0)\<rparr>))"

text \<open>"Determine confidence level".\<close>

definition determine_confidence_level :: "'m results \<Rightarrow> 'm results" where
  "determine_confidence_level res =
     (if inconsistent_markers res = 0 \<and> consistent_markers res \<ge> 20
      then res\<lparr>confidence_level := ''Very High''\<rparr>
      else if inconsistent_markers res \<le> 1 \<and> consistent_markers res \<ge> 15
      then res\<lparr>confidence_level := ''High''\<rparr>
      else if inconsistent_markers res \<le> 2 \<and> consistent_markers res \<ge> 10
      then res\<lparr>confidence_level := ''Moderate''\<rparr>
      else res\<lparr>confidence_level := ''Low''\<rparr>)"

text \<open>
  "Determine final conclusion": the local variable \<open>conclusion\<close>, which the method prints.
  The explanation sentence printed after it is not modelled.
\<close>

definition determine_conclusion :: "'m results \<Rightarrow> string" where
  "determine_conclusion res =
     (if inconsistent_markers res = 0 \<and> consistent_markers res \<ge> 15
      then ''PARENTAGE CONFIRMED''
      else if inconsistent_markers res \<le> 2 \<and> consistent_markers res \<ge> 10
      then ''PARENTAGE LIKELY''
      else if inconsistent_markers res > consistent_markers res
      then ''PARENTAGE EXCLUDED''
      else ''INCONCLUSIVE'')"

text \<open>
  The dictionary \<open>results\<close> as it is created before the loop, \<open>n\<close> being
  \<open>len(common_markers)\<close>; then the method from the point where the three data frames are
  in hand to the end: the result dictionary and the conclusion printed.
\<close>

definition initial_results :: "nat \<Rightarrow> 'm results" where
  "initial_results n =
     \<lparr>total_common_markers = n, testable_markers = 0, consistent_markers = 0,
      inconsistent_markers = 0, exclusions = [], marker_details = [],
      confidence_level = ''Unknown'', consistency_rate = None\<rparr>"

definition analyze_data ::
  "(marker_id \<times> cell) list \<Rightarrow> (marker_id \<times> cell) list \<Rightarrow> (marker_id \<times> cell) list
     \<Rightarrow> py_error + (marker_id results \<times> string)" where
  "analyze_data mother_data father_data offspring_data =
     (let common = common_markers mother_data father_data offspring_data;
          res0 = initial_results (card common);
          mother_lookup = to_dict mother_data;
          father_lookup = to_dict father_data;
          offspring_lookup = to_dict offspring_data
      in
        case py_sorted common of
          Inl e \<Rightarrow> Inl e
        | Inr sorted_markers \<Rightarrow>
            (case analyze_markers mother_lookup father_lookup offspring_lookup
                    sorted_markers res0 of
               Inl e \<Rightarrow> Inl e
             | Inr res1 \<Rightarrow>
                 (case calculate_statistics res1 of
                    Inl e \<Rightarrow> Inl e
                  | Inr res2 \<Rightarrow>
                      let res3 = determine_confidence_level res2
                      in Inr (res3, determine_conclusion res3))))"

text \<open>
  The whole call: what it returns (\<open>None\<close> is Python's \<open>None\<close>), the conclusion it prints
  (none when it gives up), and the object afterwards.
\<close>

definition analyze_parentage ::
  "marker_id analyzer \<Rightarrow> string \<Rightarrow> string \<Rightarrow> string
     \<Rightarrow> py_error
         + (marker_id results option \<times> string option \<times> marker_id analyzer)" where
  "analyze_parentage self mother_name father_name offspring_name =
     (let missing_dogs =
            filter (\<lambda>dog. profiles self dog = None) [mother_name, father_name, offspring_name]
      in
        if missing_dogs \<noteq> [] then Inr (None, None, self)
        else
          (case getitem (profiles self) mother_name of
             Inl e \<Rightarrow> Inl e
           | Inr mother_profile \<Rightarrow>
          (case getitem (profiles self) father_name of
             Inl e \<Rightarrow> Inl e
           | Inr father_profile \<Rightarrow>
          (case getitem (profiles self) offspring_name of
             Inl e \<Rightarrow> Inl e
           | Inr offspring_profile \<Rightarrow>
          (case analyze_data (data mother_profile) (data father_profile)
                  (data offspring_profile) of
             Inl e \<Rightarrow> Inl e
           | Inr (res, conclusion) \<Rightarrow>
               Inr (Some res, Some conclusion, self\<lparr>analysis_results := Some res\<rparr>))))))"

subsection \<open>A sample trio\<close>

text \<open>
  Marker 1: mother A/B, father A/C, offspring B/C. Marker 2: A/A, B/B, C/C. Marker 3: the
  mother's cell is empty. Marker 4 is in the offspring's profile only. In the second
  analyzer every profile also has the marker named AHT121, so that the common markers mix
  integers and strings.
\<close>

definition sample_mother :: "marker_id profile" where
  "sample_mother =
     \<lparr>data = [(Int_id 1, Text ''A/B''), (Int_id 2, Text ''A/A''), (Int_id 3, Text [])],
      excel_file = ''Mother.xlsx'', profile_type = ''DNA Page 3'', marker_count = 3\<rparr>"

definition sample_father :: "marker_id profile" where
  "sample_father =
     \<lparr>data = [(Int_id 1, Text ''A/C''), (Int_id 2, Text ''B/B''), (Int_id 3, Text ''A/A'')],
      excel_file = ''Father.xlsx'', profile_type = ''DNA Page 3'', marker_count = 3\<rparr>"

definition sample_offspring :: "marker_id profile" where
  "sample_offspring =
     \<lparr>data = [(Int_id 1, Text ''B/C''), (Int_id 2, Text ''C/C''), (Int_id 3, Text ''C/C''),
              (Int_id 4, Text ''A'')],
      excel_file = ''Offspring.xlsx'', profile_type = ''DNA Page 3'', marker_count = 4\<rparr>"

definition sample_analyzer :: "marker_id analyzer" where
  "sample_analyzer =
     \<lparr>profiles = [''Mother'' \<mapsto> sample_mother, ''Father'' \<mapsto> sample_father,
                  ''Offspring'' \<mapsto> sample_offspring],
      analysis_results = None\<rparr>"

definition sample_marker_1 :: "marker_id marker_result" where
  "sample_marker_1 =
     \<lparr>marker = Int_id 1, mother = Some [''A'', ''B''], father = Some [''A'', ''C''],
      offspring = Some [''B'', ''C''], consistent = True,
      details = Expected_Got {[''A'', ''A''], [''A'', ''C''], [''A'', ''B''], [''B'', ''C'']}
                  [''B'', ''C'']\<rparr>"

definition sample_marker_2 :: "marker_id marker_result" where
  "sample_marker_2 =
     \<lparr>marker = Int_id 2, mother = Some [''A'', ''A''], father = Some [''B'', ''B''],
      offspring = Some [''C'', ''C''], consistent = False,
      details = Expected_Got {[''A'', ''B'']} [''C'', ''C'']\<rparr>"

definition sample_results :: "marker_id results" where
  "sample_results =
     \<lparr>total_common_markers = 3, testable_markers = 2, consistent_markers = 1,
      inconsistent_markers = 1, exclusions = [sample_marker_2],
      marker_details = [sample_marker_1, sample_marker_2],
      confidence_level = ''Low'', consistency_rate = Some (Float_number (Finite 50))\<rparr>"


section \<open>Properties\<close>

subsection \<open>Strings and the genotype parser\<close>

lemma slash_not_space: "\<not> str_isspace CHR ''/''" "\<not> str_isspace CHR ''|''"
  by (simp_all add: str_isspace_def)

lemma split_from_no_sep: "sep \<notin> set y \<Longrightarrow> split_from sep tok y = [rev tok @ y]"
  by (induction y arbitrary: tok) auto

lemma split_from_append:
  "sep \<notin> set x \<Longrightarrow> split_from sep tok (x @ sep # y) = (rev tok @ x) # split_from sep [] y"
  by (induction x arbitrary: tok) auto

lemma str_split_two:
  "sep \<notin> set x \<Longrightarrow> sep \<notin> set y \<Longrightarrow> str_split (x @ sep # y) sep = [x, y]"
  by (simp add: str_split_def split_from_append split_from_no_sep)

lemma str_strip_around:
  assumes "\<not> str_isspace c"
  shows "str_strip (a @ c # b) =
           dropWhile str_isspace a @ c # rev (dropWhile str_isspace (rev b))"
proof -
  have "dropWhile str_isspace (a @ c # b) = dropWhile str_isspace a @ c # b"
    using assms by (simp add: dropWhile_append3)
  moreover have "dropWhile str_isspace (rev b @ c # rev (dropWhile str_isspace a))
                 = dropWhile str_isspace (rev b) @ c # rev (dropWhile str_isspace a)"
    using assms by (simp add: dropWhile_append3)
  ultimately show ?thesis by (simp add: str_strip_def)
qed

lemma rstrip_Cons:
  "rev (dropWhile P (rev (x # xs))) =
     (if P x \<and> rev (dropWhile P (rev xs)) = [] then [] else x # rev (dropWhile P (rev xs)))"
  by (auto simp: dropWhile_append dropWhile_eq_Nil_conv)

lemma lstrip_rstrip_commute:
  "dropWhile P (rev (dropWhile P (rev xs))) = rev (dropWhile P (rev (dropWhile P xs)))"
proof (induction xs)
  case Nil
  show ?case by simp
next
  case (Cons x xs)
  show ?case
  proof (cases "P x")
    case True
    then show ?thesis using Cons.IH by (simp only: rstrip_Cons dropWhile.simps) (auto dest: set_dropWhileD)
  next
    case False
    have "rev (dropWhile P (rev (x # xs))) = x # rev (dropWhile P (rev xs))"
      using False by (simp only: rstrip_Cons) simp
    then show ?thesis using False by simp
  qed
qed

lemma str_strip_lstrip: "str_strip (dropWhile str_isspace s) = str_strip s"
  by (simp add: str_strip_def)

lemma str_strip_rstrip: "str_strip (rev (dropWhile str_isspace (rev s))) = str_strip s"
  by (simp add: str_strip_def lstrip_rstrip_commute)

lemma sort_pair_commute: "sort [x, y] = sort [y, (x::'a::linorder)]"
  by auto

lemma parse_joined:
  assumes "sep = CHR ''/'' \<or> sep = CHR ''|''"
    and "CHR ''/'' \<notin> set a" "CHR ''|'' \<notin> set a" "CHR ''/'' \<notin> set b" "CHR ''|'' \<notin> set b"
  shows "parse_genotype (Text (a @ sep # b)) = Some (sort [str_strip a, str_strip b])"
proof -
  let ?l = "dropWhile str_isspace a" and ?r = "rev (dropWhile str_isspace (rev b))"
  have ns: "\<not> str_isspace sep" using assms(1) slash_not_space by auto
  have s: "str_strip (a @ sep # b) = ?l @ sep # ?r"
    using ns by (rule str_strip_around)
  have nl: "CHR ''/'' \<notin> set ?l" "CHR ''|'' \<notin> set ?l"
    using assms(2,3) by (auto dest: set_dropWhileD)
  have nr: "CHR ''/'' \<notin> set ?r" "CHR ''|'' \<notin> set ?r"
    using assms(4,5) by (auto dest: set_dropWhileD)
  have sp: "str_split (?l @ sep # ?r) sep = [?l, ?r]"
    using assms(1) nl nr by (auto intro: str_split_two)
  from assms(1) show ?thesis
  proof
    assume e: "sep = CHR ''/''"
    show ?thesis
      using sp s unfolding e
      by (simp add: parse_genotype_def Let_def str_strip_lstrip str_strip_rstrip
               del: sort_key_simps)
  next
    assume e: "sep = CHR ''|''"
    show ?thesis
      using sp s nl nr unfolding e
      by (simp add: parse_genotype_def Let_def str_strip_lstrip str_strip_rstrip
               del: sort_key_simps)
  qed
qed


lemma str_strip_idem: "str_strip (str_strip s) = str_strip s"
  unfolding str_strip_def [of "str_strip s"]
  by (simp add: str_strip_def lstrip_rstrip_commute)

lemma in_set_dropWhile: "c \<in> set s \<Longrightarrow> \<not> P c \<Longrightarrow> c \<in> set (dropWhile P s)"
  by (induction s) auto

lemma in_set_str_strip:
  assumes "\<not> str_isspace c"
  shows "c \<in> set (str_strip s) \<longleftrightarrow> c \<in> set s"
proof
  assume "c \<in> set (str_strip s)"
  then have "c \<in> set (dropWhile str_isspace (rev (dropWhile str_isspace s)))"
    by (simp add: str_strip_def)
  then have "c \<in> set (rev (dropWhile str_isspace s))" by (rule set_dropWhileD)
  then show "c \<in> set s" by (auto dest: set_dropWhileD)
next
  assume "c \<in> set s"
  then have "c \<in> set (rev (dropWhile str_isspace s))"
    using assms by (simp add: in_set_dropWhile)
  then have "c \<in> set (dropWhile str_isspace (rev (dropWhile str_isspace s)))"
    using assms by (rule in_set_dropWhile)
  then show "c \<in> set (str_strip s)" by (simp add: str_strip_def)
qed

lemma set_possible_offspring:
  "set (possible_offspring p1 p2) = {sort [a, b] | a b. a \<in> set p1 \<and> b \<in> set p2}"
  unfolding possible_offspring_def by auto


subsection \<open>The loop over the common markers\<close>

lemma dom_foldl_update:
  "dom (foldl (\<lambda>d (k, v). d(k \<mapsto> v)) d0 rows) = dom d0 \<union> fst ` set rows"
  by (induction rows arbitrary: d0) (auto split: prod.splits)

lemma dom_to_dict: "dom (to_dict rows) = fst ` set rows"
  by (simp add: to_dict_def dom_foldl_update)

lemma common_markers_finite: "finite (common_markers md fd od)"
  by (simp add: common_markers_def)

lemma analyze_marker_cases:
  assumes "analyze_marker ml fl ol res m = Inr res'"
  shows "res' = res
     \<or> (\<exists>x. marker x = m \<and> consistent x \<and>
            res' = res\<lparr>testable_markers := testable_markers res + 1,
                       marker_details := marker_details res @ [x],
                       consistent_markers := consistent_markers res + 1\<rparr>)
     \<or> (\<exists>x. marker x = m \<and> \<not> consistent x \<and>
            res' = res\<lparr>testable_markers := testable_markers res + 1,
                       marker_details := marker_details res @ [x],
                       inconsistent_markers := inconsistent_markers res + 1,
                       exclusions := exclusions res @ [x]\<rparr>)"
proof -
  obtain mc where mc: "getitem ml m = Inr mc"
    using assms by (cases "getitem ml m") (simp_all add: analyze_marker_def)
  obtain fc where fc: "getitem fl m = Inr fc"
    using assms mc by (cases "getitem fl m") (simp_all add: analyze_marker_def)
  obtain oc where oc: "getitem ol m = Inr oc"
    using assms mc fc by (cases "getitem ol m") (simp_all add: analyze_marker_def)
  define chk where
    "chk = check_mendelian_inheritance (parse_genotype mc) (parse_genotype fc) (parse_genotype oc)"
  define x where
    "x = \<lparr>marker = m, mother = parse_genotype mc, father = parse_genotype fc,
           offspring = parse_genotype oc, consistent = fst chk, details = snd chk\<rparr>"
  have mx: "marker x = m" and cx: "consistent x = fst chk" by (simp_all add: x_def)
  show ?thesis
  proof (cases "truthy (parse_genotype mc) \<and> truthy (parse_genotype fc) \<and> truthy (parse_genotype oc)")
    case False
    then have "res' = res"
      using assms mc fc oc by (auto simp add: analyze_marker_def Let_def)
    then show ?thesis by blast
  next
    case True
    show ?thesis
    proof (cases "fst chk")
      case True
      have "res' = res\<lparr>testable_markers := testable_markers res + 1,
                       marker_details := marker_details res @ [x],
                       consistent_markers := consistent_markers res + 1\<rparr>"
        using assms mc fc oc \<open>truthy _ \<and> _\<close> True
        by (simp add: analyze_marker_def Let_def chk_def [symmetric] x_def)
      with mx cx True show ?thesis by blast
    next
      case False
      have "res' = res\<lparr>testable_markers := testable_markers res + 1,
                       marker_details := marker_details res @ [x],
                       inconsistent_markers := inconsistent_markers res + 1,
                       exclusions := exclusions res @ [x]\<rparr>"
        using assms mc fc oc \<open>truthy _ \<and> _\<close> False
        by (simp add: analyze_marker_def Let_def chk_def [symmetric] x_def)
      with mx cx False show ?thesis by blast
    qed
  qed
qed

lemma analyze_marker_defined:
  assumes "ml m = Some mc" and "fl m = Some fc" and "ol m = Some oc"
  shows "\<exists>res'. analyze_marker ml fl ol res m = Inr res'"
  using assms by (simp add: analyze_marker_def getitem_def Let_def)

lemma analyze_marker_skip:
  assumes "ml m = Some mc" and "fl m = Some fc" and "ol m = Some oc"
    and "parse_genotype mc = None \<or> parse_genotype fc = None \<or> parse_genotype oc = None"
  shows "analyze_marker ml fl ol res m = Inr res"
  using assms by (auto simp add: analyze_marker_def getitem_def Let_def truthy_def)

lemma analyze_markers_defined:
  assumes "\<forall>m \<in> set ms. m \<in> dom ml \<and> m \<in> dom fl \<and> m \<in> dom ol"
  shows "\<exists>res'. analyze_markers ml fl ol ms res = Inr res'"
  using assms
proof (induction ms arbitrary: res)
  case Nil
  show ?case by simp
next
  case (Cons m ms)
  have "m \<in> dom ml" "m \<in> dom fl" "m \<in> dom ol"
    using Cons.prems by simp_all
  then obtain mc fc oc where "ml m = Some mc" "fl m = Some fc" "ol m = Some oc"
    by (auto simp: dom_def)
  then obtain r1 where "analyze_marker ml fl ol res m = Inr r1"
    using analyze_marker_defined [of ml m mc fl fc ol oc res] by auto
  moreover have "\<exists>res'. analyze_markers ml fl ol ms r1 = Inr res'"
    using Cons.prems by (intro Cons.IH) simp
  ultimately show ?case by simp
qed

lemma analyze_markers_remove1:
  assumes "\<And>res. analyze_marker ml fl ol res m = Inr res"
  shows "analyze_markers ml fl ol (remove1 m ms) res = analyze_markers ml fl ol ms res"
proof (induction ms arbitrary: res)
  case Nil
  show ?case by simp
next
  case (Cons x xs)
  show ?case
  proof (cases "x = m")
    case True
    then show ?thesis using assms by simp
  next
    case False
    then show ?thesis using Cons.IH by (simp split: sum.splits)
  qed
qed

subsection \<open>The whole analysis\<close>

lemma analyze_marker_tally:
  assumes "analyze_marker ml fl ol res m = Inr res'"
    and "testable_markers res = consistent_markers res + inconsistent_markers res"
    and "length (marker_details res) = testable_markers res"
    and "length (exclusions res) = inconsistent_markers res"
    and "\<forall>x \<in> set (exclusions res). \<not> consistent x \<and> x \<in> set (marker_details res)"
  shows "testable_markers res' = consistent_markers res' + inconsistent_markers res'
       \<and> length (marker_details res') = testable_markers res'
       \<and> length (exclusions res') = inconsistent_markers res'
       \<and> (\<forall>x \<in> set (exclusions res'). \<not> consistent x \<and> x \<in> set (marker_details res'))"
  using analyze_marker_cases [OF assms(1)] assms(2-5) by (elim disjE exE conjE) simp_all

lemma analyze_markers_tally:
  assumes "analyze_markers ml fl ol ms res = Inr res'"
    and "testable_markers res = consistent_markers res + inconsistent_markers res"
    and "length (marker_details res) = testable_markers res"
    and "length (exclusions res) = inconsistent_markers res"
    and "\<forall>x \<in> set (exclusions res). \<not> consistent x \<and> x \<in> set (marker_details res)"
  shows "testable_markers res' = consistent_markers res' + inconsistent_markers res'
       \<and> length (marker_details res') = testable_markers res'
       \<and> length (exclusions res') = inconsistent_markers res'
       \<and> (\<forall>x \<in> set (exclusions res'). \<not> consistent x \<and> x \<in> set (marker_details res'))"
  using assms
proof (induction ms arbitrary: res)
  case Nil
  then show ?case by simp
next
  case (Cons m ms)
  from Cons.prems(1) obtain r1 where
    step: "analyze_marker ml fl ol res m = Inr r1" and
    rest: "analyze_markers ml fl ol ms r1 = Inr res'"
    by (cases "analyze_marker ml fl ol res m") simp_all
  have "testable_markers r1 = consistent_markers r1 + inconsistent_markers r1
       \<and> length (marker_details r1) = testable_markers r1
       \<and> length (exclusions r1) = inconsistent_markers r1
       \<and> (\<forall>x \<in> set (exclusions r1). \<not> consistent x \<and> x \<in> set (marker_details r1))"
    using step Cons.prems(2-5) by (rule analyze_marker_tally)
  then have inv:
    "testable_markers r1 = consistent_markers r1 + inconsistent_markers r1"
    "length (marker_details r1) = testable_markers r1"
    "length (exclusions r1) = inconsistent_markers r1"
    "\<forall>x \<in> set (exclusions r1). \<not> consistent x \<and> x \<in> set (marker_details r1)"
    by blast+
  show ?case by (rule Cons.IH [OF rest inv])
qed

lemma analyze_marker_keeps:
  assumes "analyze_marker ml fl ol res m = Inr res'"
  shows "total_common_markers res' = total_common_markers res
       \<and> confidence_level res' = confidence_level res
       \<and> consistency_rate res' = consistency_rate res
       \<and> marker ` set (marker_details res') \<subseteq> insert m (marker ` set (marker_details res))
       \<and> marker ` set (exclusions res') \<subseteq> insert m (marker ` set (exclusions res))"
  using analyze_marker_cases [OF assms] by (elim disjE exE conjE) auto

lemma analyze_markers_keeps:
  assumes "analyze_markers ml fl ol ms res = Inr res'"
  shows "total_common_markers res' = total_common_markers res
       \<and> marker ` set (marker_details res') \<subseteq> set ms \<union> marker ` set (marker_details res)
       \<and> marker ` set (exclusions res') \<subseteq> set ms \<union> marker ` set (exclusions res)"
  using assms
proof (induction ms arbitrary: res)
  case Nil
  then show ?case by simp
next
  case (Cons m ms)
  from Cons.prems obtain r1 where
    step: "analyze_marker ml fl ol res m = Inr r1" and
    rest: "analyze_markers ml fl ol ms r1 = Inr res'"
    by (cases "analyze_marker ml fl ol res m") simp_all
  have s1: "total_common_markers r1 = total_common_markers res"
    and s2: "marker ` set (marker_details r1) \<subseteq> insert m (marker ` set (marker_details res))"
    and s3: "marker ` set (exclusions r1) \<subseteq> insert m (marker ` set (exclusions res))"
    using analyze_marker_keeps [OF step] by blast+
  have t1: "total_common_markers res' = total_common_markers r1"
    and t2: "marker ` set (marker_details res') \<subseteq> set ms \<union> marker ` set (marker_details r1)"
    and t3: "marker ` set (exclusions res') \<subseteq> set ms \<union> marker ` set (exclusions r1)"
    using Cons.IH [OF rest] by blast+
  have "marker ` set (marker_details res') \<subseteq> set (m # ms) \<union> marker ` set (marker_details res)"
    using s2 t2 by (simp only: set_simps) blast
  moreover have "marker ` set (exclusions res') \<subseteq> set (m # ms) \<union> marker ` set (exclusions res)"
    using s3 t3 by (simp only: set_simps) blast
  ultimately show ?case using s1 t1 by simp
qed

subsection \<open>Rounding and the guarded division\<close>

lemma round_half_even_le: "of_int (round_half_even z) \<le> z + 1 / 2"
proof -
  define f where "f = \<lfloor>z\<rfloor>"
  define r where "r = z - of_int f"
  have z: "z = of_int f + r" by (simp add: r_def)
  have rhe: "round_half_even z =
      (if r < 1 / 2 then f else if 1 / 2 < r then f + 1 else if even f then f else f + 1)"
    by (simp add: round_half_even_def Let_def f_def r_def)
  have r0: "0 \<le> r" unfolding r_def f_def by simp
  show ?thesis
  proof (cases "r < 1 / 2")
    case True
    then show ?thesis unfolding rhe using r0 z by simp
  next
    case False
    then have "(of_int (f + 1) :: rat) \<le> of_int f + r + 1 / 2" by simp
    moreover have "(of_int f :: rat) \<le> of_int f + r + 1 / 2" using r0 by simp
    ultimately show ?thesis unfolding rhe using False z by auto
  qed
qed

lemma floor_log2_le_0:
  assumes "0 < x" and "x \<le> 1"
  shows "floor_log2 x \<le> 0"
proof -
  obtain p q where pq: "quotient_of x = (p, q)" by (cases "quotient_of x")
  have q: "0 < q" using pq by (rule quotient_of_denom_pos)
  have x: "x = of_int p / of_int q" using pq by (rule quotient_of_div)
  have "of_int p \<le> (of_int q :: rat)"
    using assms(2) q unfolding x by (simp add: divide_le_eq)
  then have "p \<le> q" by simp
  then have "floorlog 2 (nat p) \<le> floorlog 2 (nat q)"
    by (intro floorlog_mono) simp
  then have "bitlen p \<le> bitlen q" by (simp add: bitlen_def)
  then show ?thesis
    unfolding floor_log2_def pq by (simp add: Let_def)
qed

lemma round_to_double_finite:
  assumes "x \<le> 1"
  shows "\<exists>y. round_to_double x = Finite y"
proof (cases "x \<le> 0")
  case True
  then show ?thesis by (simp add: round_to_double_def)
next
  case False
  then have pos: "0 < x" by simp
  define e where "e = max (floor_log2 x) (- 1022)"
  define ulp :: rat where "ulp = 2 powi (e - 52)"
  define y where "y = of_int (round_half_even (x / ulp)) * ulp"
  have e: "e \<le> 0"
    using floor_log2_le_0 [OF pos assms] by (simp add: e_def)
  have ulp_pos: "0 < ulp" by (simp add: ulp_def)
  have "ulp \<le> 2 powi 0"
    unfolding ulp_def using e by (intro power_int_increasing) simp_all
  then have ulp_le: "ulp \<le> 1" by simp
  have "y \<le> (x / ulp + 1 / 2) * ulp"
    unfolding y_def using ulp_pos round_half_even_le [of "x / ulp"]
    by (intro mult_right_mono) simp_all
  also have "\<dots> = x + ulp / 2"
    using ulp_pos by (simp add: field_simps)
  also have "\<dots> \<le> 1 + 1 / 2"
    using assms ulp_le by simp
  finally have y: "y \<le> 3 / 2" by simp
  have "(2 :: rat) powi 1 \<le> 2 powi 1024"
    by (intro power_int_increasing) simp_all
  then have big: "(2 :: rat) \<le> 2 powi 1024" by simp
  have "\<not> 2 powi 1024 \<le> y" using y big by linarith
  then show ?thesis
    using False unfolding round_to_double_def Let_def e_def [symmetric] ulp_def [symmetric]
      y_def [symmetric]
    by simp
qed

lemma truediv_defined:
  assumes "0 < b" and "a \<le> b"
  shows "\<exists>q. truediv a b = Inr (Finite q)"
proof -
  have "(of_nat a :: rat) / of_nat b \<le> 1"
    using assms by (simp add: divide_le_eq)
  then obtain y where "round_to_double (of_nat a / of_nat b) = Finite y"
    using round_to_double_finite by blast
  then show ?thesis using assms(1) by (simp add: truediv_def)
qed

lemma calculate_statistics_defined:
  assumes "consistent_markers res \<le> testable_markers res"
  shows "\<exists>v. calculate_statistics res = Inr (res\<lparr>consistency_rate := Some v\<rparr>)"
proof (cases "0 < testable_markers res")
  case True
  obtain q where "truediv (consistent_markers res) (testable_markers res) = Inr (Finite q)"
    using truediv_defined [OF True assms] by blast
  then have "calculate_statistics res =
      Inr (res\<lparr>consistency_rate := Some (Float_number (float_times_100 (Finite q)))\<rparr>)"
    using True by (simp add: calculate_statistics_def)
  then show ?thesis by (rule exI)
next
  case False
  then have "calculate_statistics res = Inr (res\<lparr>consistency_rate := Some (Int_number 0)\<rparr>)"
    by (simp add: calculate_statistics_def)
  then show ?thesis by (rule exI)
qed

lemma calculate_statistics_rate:
  assumes "calculate_statistics res = Inr res2"
  shows "(0 < testable_markers res \<longrightarrow>
           (\<exists>q. truediv (consistent_markers res) (testable_markers res) = Inr q \<and>
                consistency_rate res2 = Some (Float_number (float_times_100 q)))) \<and>
         (testable_markers res = 0 \<longrightarrow> consistency_rate res2 = Some (Int_number 0))"
proof (cases "0 < testable_markers res")
  case True
  then obtain q where q: "truediv (consistent_markers res) (testable_markers res) = Inr q"
    using assms
    by (cases "truediv (consistent_markers res) (testable_markers res)")
       (simp_all add: calculate_statistics_def)
  then show ?thesis using assms True by (auto simp add: calculate_statistics_def)
next
  case False
  then show ?thesis using assms by (auto simp add: calculate_statistics_def)
qed

lemma calculate_statistics_no_zero_division:
  "calculate_statistics res \<noteq> Inl ZeroDivisionError"
proof (cases "0 < testable_markers res")
  case True
  then have "truediv (consistent_markers res) (testable_markers res) \<noteq> Inl ZeroDivisionError"
    by (simp add: truediv_def split: py_float.splits)
  then show ?thesis
    using True by (auto simp add: calculate_statistics_def split: sum.splits)
next
  case False
  then show ?thesis by (simp add: calculate_statistics_def)
qed

lemma determine_confidence_level_keeps:
  "testable_markers (determine_confidence_level res) = testable_markers res"
  "consistent_markers (determine_confidence_level res) = consistent_markers res"
  "inconsistent_markers (determine_confidence_level res) = inconsistent_markers res"
  "total_common_markers (determine_confidence_level res) = total_common_markers res"
  "marker_details (determine_confidence_level res) = marker_details res"
  "exclusions (determine_confidence_level res) = exclusions res"
  "consistency_rate (determine_confidence_level res) = consistency_rate res"
  by (simp_all add: determine_confidence_level_def)

lemma confidence_level_determined:
  "confidence_level (determine_confidence_level res) =
     (if inconsistent_markers res = 0 \<and> 20 \<le> consistent_markers res then ''Very High''
      else if inconsistent_markers res \<le> 1 \<and> 15 \<le> consistent_markers res then ''High''
      else if inconsistent_markers res \<le> 2 \<and> 10 \<le> consistent_markers res then ''Moderate''
      else ''Low'')"
  by (simp add: determine_confidence_level_def)

lemma analyze_data_mixed:
  assumes "mixed_types (common_markers md fd od)"
  shows "analyze_data md fd od = Inl TypeError"
  using assms by (simp add: analyze_data_def py_sorted_def Let_def)

lemma analyze_data_result:
  assumes "\<not> mixed_types (common_markers md fd od)"
  shows "\<exists>res1 v.
      analyze_markers (to_dict md) (to_dict fd) (to_dict od)
        (sorted_list_of_set (common_markers md fd od))
        (initial_results (card (common_markers md fd od))) = Inr res1
    \<and> calculate_statistics res1 = Inr (res1\<lparr>consistency_rate := Some v\<rparr>)
    \<and> analyze_data md fd od =
        Inr (determine_confidence_level (res1\<lparr>consistency_rate := Some v\<rparr>),
             determine_conclusion
               (determine_confidence_level (res1\<lparr>consistency_rate := Some v\<rparr>)))"
proof -
  let ?C = "common_markers md fd od"
  have "\<forall>m \<in> set (sorted_list_of_set ?C).
          m \<in> dom (to_dict md) \<and> m \<in> dom (to_dict fd) \<and> m \<in> dom (to_dict od)"
    by (simp add: common_markers_finite) (simp add: common_markers_def dom_to_dict)
  then obtain res1 where
    r: "analyze_markers (to_dict md) (to_dict fd) (to_dict od) (sorted_list_of_set ?C)
          (initial_results (card ?C)) = Inr res1"
    using analyze_markers_defined by blast
  have "testable_markers res1 = consistent_markers res1 + inconsistent_markers res1
       \<and> length (marker_details res1) = testable_markers res1
       \<and> length (exclusions res1) = inconsistent_markers res1
       \<and> (\<forall>x \<in> set (exclusions res1). \<not> consistent x \<and> x \<in> set (marker_details res1))"
    by (rule analyze_markers_tally [OF r]) (simp_all add: initial_results_def)
  then have "consistent_markers res1 \<le> testable_markers res1" by simp
  then obtain v where
    s: "calculate_statistics res1 = Inr (res1\<lparr>consistency_rate := Some v\<rparr>)"
    using calculate_statistics_defined by blast
  have "analyze_data md fd od =
        Inr (determine_confidence_level (res1\<lparr>consistency_rate := Some v\<rparr>),
             determine_conclusion
               (determine_confidence_level (res1\<lparr>consistency_rate := Some v\<rparr>)))"
    using assms by (simp add: analyze_data_def py_sorted_def Let_def r s)
  with r s show ?thesis by blast
qed

lemma analyze_parentage_missing:
  assumes "profiles self mn = None \<or> profiles self fn = None \<or> profiles self on = None"
  shows "analyze_parentage self mn fn on = Inr (None, None, self)"
  using assms by (auto simp add: analyze_parentage_def)

lemma analyze_parentage_loaded:
  assumes "profiles self mn = Some mp" and "profiles self fn = Some fp"
    and "profiles self on = Some op"
  shows "analyze_parentage self mn fn on =
           (case analyze_data (data mp) (data fp) (data op) of
              Inl e \<Rightarrow> Inl e
            | Inr (res, concl) \<Rightarrow>
                Inr (Some res, Some concl, self\<lparr>analysis_results := Some res\<rparr>))"
  using assms by (simp add: analyze_parentage_def getitem_def)

lemma analyze_parentage_mixed:
  assumes "profiles self mn = Some mp" and "profiles self fn = Some fp"
    and "profiles self on = Some op"
    and "mixed_types (common_markers (data mp) (data fp) (data op))"
  shows "analyze_parentage self mn fn on = Inl TypeError"
  by (simp add: analyze_parentage_loaded [OF assms(1-3)] analyze_data_mixed [OF assms(4)])

lemma analyze_parentage_loop:
  assumes "analyze_parentage self mn fn on = Inr (Some r, concl, self')"
  shows "\<exists>mp fp op res1 v. profiles self mn = Some mp \<and> profiles self fn = Some fp \<and>
           profiles self on = Some op \<and>
           \<not> mixed_types (common_markers (data mp) (data fp) (data op)) \<and>
           analyze_markers (to_dict (data mp)) (to_dict (data fp)) (to_dict (data op))
             (sorted_list_of_set (common_markers (data mp) (data fp) (data op)))
             (initial_results (card (common_markers (data mp) (data fp) (data op)))) = Inr res1 \<and>
           calculate_statistics res1 = Inr (res1\<lparr>consistency_rate := Some v\<rparr>) \<and>
           r = determine_confidence_level (res1\<lparr>consistency_rate := Some v\<rparr>) \<and>
           concl = Some (determine_conclusion r) \<and>
           self' = self\<lparr>analysis_results := Some r\<rparr>"
proof -
  have "\<not> (profiles self mn = None \<or> profiles self fn = None \<or> profiles self on = None)"
  proof
    assume "profiles self mn = None \<or> profiles self fn = None \<or> profiles self on = None"
    then have "analyze_parentage self mn fn on = Inr (None, None, self)"
      by (rule analyze_parentage_missing)
    with assms show False by simp
  qed
  then obtain mp fp op where
    p: "profiles self mn = Some mp" "profiles self fn = Some fp" "profiles self on = Some op"
    by auto
  have nm: "\<not> mixed_types (common_markers (data mp) (data fp) (data op))"
  proof
    assume "mixed_types (common_markers (data mp) (data fp) (data op))"
    then have "analyze_parentage self mn fn on = Inl TypeError"
      by (rule analyze_parentage_mixed [OF p])
    with assms show False by simp
  qed
  from analyze_data_result [OF nm] obtain res1 v where
    l: "analyze_markers (to_dict (data mp)) (to_dict (data fp)) (to_dict (data op))
             (sorted_list_of_set (common_markers (data mp) (data fp) (data op)))
             (initial_results (card (common_markers (data mp) (data fp) (data op)))) = Inr res1"
    and s: "calculate_statistics res1 = Inr (res1\<lparr>consistency_rate := Some v\<rparr>)"
    and d: "analyze_data (data mp) (data fp) (data op) =
        Inr (determine_confidence_level (res1\<lparr>consistency_rate := Some v\<rparr>),
             determine_conclusion
               (determine_confidence_level (res1\<lparr>consistency_rate := Some v\<rparr>)))"
    by (elim exE conjE)
  from assms have
    e: "r = determine_confidence_level (res1\<lparr>consistency_rate := Some v\<rparr>)"
       "concl = Some (determine_conclusion r)"
       "self' = self\<lparr>analysis_results := Some r\<rparr>"
    unfolding analyze_parentage_loaded [OF p] d by auto
  show ?thesis
    by (rule exI [of _ mp], rule exI [of _ fp], rule exI [of _ op], rule exI [of _ res1],
        rule exI [of _ v])
       (intro conjI p nm l s e)
qed

lemma analyze_parentage_SomeD:
  assumes "analyze_parentage self mn fn on = Inr (Some r, concl, self')"
  shows "concl = Some (determine_conclusion r) \<and> self' = self\<lparr>analysis_results := Some r\<rparr>"
  using analyze_parentage_loop [OF assms] by (elim exE conjE) (rule conjI)

lemma analyze_parentage_error:
  assumes "analyze_parentage self mn fn on = Inl e"
  shows "e = TypeError"
proof (cases "profiles self mn = None \<or> profiles self fn = None \<or> profiles self on = None")
  case True
  then show ?thesis using assms analyze_parentage_missing [OF True] by simp
next
  case False
  then obtain mp fp op where
    p: "profiles self mn = Some mp" "profiles self fn = Some fp" "profiles self on = Some op"
    by auto
  show ?thesis
  proof (cases "mixed_types (common_markers (data mp) (data fp) (data op))")
    case True
    then show ?thesis using assms analyze_parentage_mixed [OF p True] by simp
  next
    case False
    from analyze_data_result [OF False] obtain r c where
      "analyze_data (data mp) (data fp) (data op) = Inr (r, c)"
      by (elim exE conjE)
    then show ?thesis using assms by (simp add: analyze_parentage_loaded [OF p])
  qed
qed

subsection \<open>The sample trio, evaluated\<close>

lemma sample_common:
  "common_markers (data sample_mother) (data sample_father) (data sample_offspring)
     = {Int_id 1, Int_id 2, Int_id 3}"
  by (auto simp: common_markers_def sample_mother_def sample_father_def sample_offspring_def)

lemma sample_sorted:
  "sorted_list_of_set {Int_id 1, Int_id 2, Int_id 3} = [Int_id 1, Int_id 2, Int_id 3]"
  by simp

lemma sample_not_mixed: "\<not> mixed_types {Int_id 1, Int_id 2, Int_id 3}"
  by (simp add: mixed_types_def is_int_id_def)

lemma sample_parse:
  "parse_genotype (Text ''A/B'') = Some [''A'', ''B'']"
  "parse_genotype (Text ''A/C'') = Some [''A'', ''C'']"
  "parse_genotype (Text ''B/C'') = Some [''B'', ''C'']"
  "parse_genotype (Text ''A/A'') = Some [''A'', ''A'']"
  "parse_genotype (Text ''B/B'') = Some [''B'', ''B'']"
  "parse_genotype (Text ''C/C'') = Some [''C'', ''C'']"
  "parse_genotype (Text []) = None"
  by (simp_all add: parse_genotype_def Let_def str_strip_def str_isspace_def str_split_def)

lemma sample_quotient: "truediv 1 2 = Inr (Finite (1 / 2))"
  by code_simp

lemma sample_percent: "float_times_100 (Finite (1 / 2)) = Finite 50"
  by code_simp

text \<open>11 of 20: Python's \<open>(11 / 20) * 100\<close> is 55.00000000000001, not 55.\<close>

lemma rounded_quotient:
  "truediv 11 20 = Inr (Finite (2476979795053773 / 4503599627370496))"
  by code_simp

lemma rounded_percent:
  "float_times_100 (Finite (2476979795053773 / 4503599627370496))
     = Finite (7740561859543041 / 140737488355328)"
  by code_simp

lemma sample_loop:
  "analyze_markers (to_dict (data sample_mother)) (to_dict (data sample_father))
     (to_dict (data sample_offspring)) [Int_id 1, Int_id 2, Int_id 3] (initial_results 3)
   = Inr (sample_results\<lparr>confidence_level := ''Unknown'', consistency_rate := None\<rparr>)"
  by (simp add: sample_mother_def sample_father_def sample_offspring_def to_dict_def
        analyze_marker_def getitem_def sample_parse truthy_def initial_results_def
        check_mendelian_inheritance_def possible_offspring_def Let_def
        sample_results_def sample_marker_1_def sample_marker_2_def)

lemma sample_statistics:
  "calculate_statistics (sample_results\<lparr>confidence_level := ''Unknown'', consistency_rate := None\<rparr>)
   = Inr (sample_results\<lparr>confidence_level := ''Unknown''\<rparr>)"
proof -
  have t: "testable_markers sample_results = 2" and c: "consistent_markers sample_results = 1"
    by (simp_all add: sample_results_def)
  have q: "truediv (Suc 0) 2 = Inr (Finite (1 / 2))"
    using sample_quotient by simp
  show ?thesis
    by (simp add: calculate_statistics_def t c q sample_percent) (simp add: sample_results_def)
qed

lemma sample_data_run:
  "analyze_data (data sample_mother) (data sample_father) (data sample_offspring)
     = Inr (sample_results, ''INCONCLUSIVE'')"
proof -
  have c: "card {Int_id 1, Int_id 2, Int_id 3} = 3" by simp
  have f: "determine_confidence_level (sample_results\<lparr>confidence_level := ''Unknown''\<rparr>)
             = sample_results"
    by (simp add: determine_confidence_level_def sample_results_def)
  have g: "determine_conclusion sample_results = ''INCONCLUSIVE''"
    by (simp add: determine_conclusion_def sample_results_def)
  have ps: "py_sorted {Int_id 1, Int_id 2, Int_id 3} = Inr [Int_id 1, Int_id 2, Int_id 3]"
    by (simp only: py_sorted_def sample_not_mixed sample_sorted if_False)
  show ?thesis
    unfolding analyze_data_def sample_common Let_def c ps
    by (simp only: sum.case sample_loop sample_statistics f g)
qed

lemma sample_run:
  "analyze_parentage sample_analyzer ''Mother'' ''Father'' ''Offspring''
     = Inr (Some sample_results, Some ''INCONCLUSIVE'',
            sample_analyzer\<lparr>analysis_results := Some sample_results\<rparr>)"
  by (simp add: analyze_parentage_def sample_analyzer_def getitem_def sample_data_run)

lemma sample_lookup_3:
  "to_dict (data sample_mother) (Int_id 3) = Some (Text [])"
  "to_dict (data sample_father) (Int_id 3) = Some (Text ''A/A'')"
  "to_dict (data sample_offspring) (Int_id 3) = Some (Text ''C/C'')"
  by (simp_all add: to_dict_def sample_mother_def sample_father_def sample_offspring_def)

lemma sample_profiles:
  "profiles sample_analyzer ''Mother'' = Some sample_mother"
  "profiles sample_analyzer ''Father'' = Some sample_father"
  "profiles sample_analyzer ''Offspring'' = Some sample_offspring"
  by (simp_all add: sample_analyzer_def)



section \<open>The claims\<close>

text \<open>
  C1: for non-empty parental genotypes \<open>p1\<close>, \<open>p2\<close> and offspring genotype \<open>off\<close> (in
  particular canonical two-allele pairs), the check is consistent exactly when the sorted
  offspring genotype is one of the sorted pairs made of an allele of \<open>p1\<close> and an allele of
  \<open>p2\<close>.
\<close>

theorem mendelian_consistent_iff_possible:
  assumes "p1 \<noteq> []" and "p2 \<noteq> []" and "off \<noteq> []"
  shows "fst (check_mendelian_inheritance (Some p1) (Some p2) (Some off)) \<longleftrightarrow>
           sort off \<in> {sort [a, b] | a b. a \<in> set p1 \<and> b \<in> set p2}"
  using assms
  by (simp add: check_mendelian_inheritance_def Let_def set_possible_offspring
           del: sort_key_simps)

text \<open>Scenario A of the specification: mother A/B, father A/C, offspring B/C.\<close>

theorem mendelian_consistent_iff_possible_witness:
  "[''A'', ''B''] \<noteq> [] \<and> [''A'', ''C''] \<noteq> [] \<and> [''B'', ''C''] \<noteq> [] \<and>
   fst (check_mendelian_inheritance (Some [''A'', ''B'']) (Some [''A'', ''C''])
          (Some [''B'', ''C''])) \<and>
   sort [''B'', ''C''] \<in> {sort [a, b] | a b. a \<in> set [''A'', ''B''] \<and> b \<in> set [''A'', ''C'']}"
proof -
  have c: "fst (check_mendelian_inheritance (Some [''A'', ''B'']) (Some [''A'', ''C''])
                  (Some [''B'', ''C'']))"
    by (simp add: check_mendelian_inheritance_def possible_offspring_def Let_def)
  show ?thesis
    using c mendelian_consistent_iff_possible [of "[''A'', ''B'']" "[''A'', ''C'']" "[''B'', ''C'']"]
    by blast
qed

text \<open>
  C2: the conclusion is decided from the counts \<open>c\<close> (consistent) and \<open>i\<close>
  (inconsistent) by the first rule that applies: \<open>i = 0\<close> and \<open>c \<ge> 15\<close> confirmed; else
  \<open>i \<le> 2\<close> and \<open>c \<ge> 10\<close> likely; else \<open>i > c\<close> excluded; otherwise inconclusive. So 18 and 0
  give confirmed, 8 and 12 give excluded, and the conclusion a call prints is that of the
  result it returns. The method prints the four labels in capitals.
\<close>

theorem conclusion_precedence:
  "(consistent_markers res = c \<and> inconsistent_markers res = i \<longrightarrow>
      determine_conclusion res =
        (if i = 0 \<and> 15 \<le> c then ''PARENTAGE CONFIRMED''
         else if i \<le> 2 \<and> 10 \<le> c then ''PARENTAGE LIKELY''
         else if c < i then ''PARENTAGE EXCLUDED''
         else ''INCONCLUSIVE'')) \<and>
   (consistent_markers res = 18 \<and> inconsistent_markers res = 0 \<longrightarrow>
      determine_conclusion res = ''PARENTAGE CONFIRMED'') \<and>
   (consistent_markers res = 8 \<and> inconsistent_markers res = 12 \<longrightarrow>
      determine_conclusion res = ''PARENTAGE EXCLUDED'') \<and>
   (analyze_parentage self mn fn on = Inr (Some r, concl, self') \<longrightarrow>
      concl = Some (determine_conclusion r))"
proof -
  have "analyze_parentage self mn fn on = Inr (Some r, concl, self') \<longrightarrow>
      concl = Some (determine_conclusion r)"
    using analyze_parentage_SomeD [of self mn fn on r concl self'] by blast
  then show ?thesis by (simp add: determine_conclusion_def)
qed

theorem conclusion_precedence_witness:
  "determine_conclusion (sample_results\<lparr>consistent_markers := 18, inconsistent_markers := 0\<rparr>)
     = ''PARENTAGE CONFIRMED'' \<and>
   determine_conclusion (sample_results\<lparr>consistent_markers := 8, inconsistent_markers := 12\<rparr>)
     = ''PARENTAGE EXCLUDED'' \<and>
   determine_conclusion (sample_results\<lparr>consistent_markers := 12, inconsistent_markers := 2\<rparr>)
     = ''PARENTAGE LIKELY'' \<and>
   analyze_parentage sample_analyzer ''Mother'' ''Father'' ''Offspring''
     = Inr (Some sample_results, Some ''INCONCLUSIVE'',
            sample_analyzer\<lparr>analysis_results := Some sample_results\<rparr>) \<and>
   Some ''INCONCLUSIVE'' = Some (determine_conclusion sample_results)"
  using
    conclusion_precedence [where res = "sample_results\<lparr>consistent_markers := 18, inconsistent_markers := 0\<rparr>"
      and c = 18 and i = 0 and self = sample_analyzer and mn = "''Mother''" and fn = "''Father''"
      and on = "''Offspring''" and r = sample_results and concl = "Some ''INCONCLUSIVE''"
      and self' = "sample_analyzer\<lparr>analysis_results := Some sample_results\<rparr>"]
    conclusion_precedence [where res = "sample_results\<lparr>consistent_markers := 8, inconsistent_markers := 12\<rparr>"
      and c = 8 and i = 12 and self = sample_analyzer and mn = "''Mother''" and fn = "''Father''"
      and on = "''Offspring''" and r = sample_results and concl = "Some ''INCONCLUSIVE''"
      and self' = "sample_analyzer\<lparr>analysis_results := Some sample_results\<rparr>"]
    conclusion_precedence [where res = "sample_results\<lparr>consistent_markers := 12, inconsistent_markers := 2\<rparr>"
      and c = 12 and i = 2 and self = sample_analyzer and mn = "''Mother''" and fn = "''Father''"
      and on = "''Offspring''" and r = sample_results and concl = "Some ''INCONCLUSIVE''"
      and self' = "sample_analyzer\<lparr>analysis_results := Some sample_results\<rparr>"]
    sample_run
  by simp

text \<open>
  C3: the confidence level is decided from the counts by the first rule that applies:
  \<open>i = 0\<close> and \<open>c \<ge> 20\<close> Very High; else \<open>i \<le> 1\<close> and \<open>c \<ge> 15\<close> High; else \<open>i \<le> 2\<close> and
  \<open>c \<ge> 10\<close> Moderate; otherwise Low. So 20 and 0 give Very High, 19 and 0 give High, and
  every returned result carries the level of its own counts.
\<close>

theorem confidence_level_precedence:
  "(consistent_markers res = c \<and> inconsistent_markers res = i \<longrightarrow>
      confidence_level (determine_confidence_level res) =
        (if i = 0 \<and> 20 \<le> c then ''Very High''
         else if i \<le> 1 \<and> 15 \<le> c then ''High''
         else if i \<le> 2 \<and> 10 \<le> c then ''Moderate''
         else ''Low'')) \<and>
   (consistent_markers res = 20 \<and> inconsistent_markers res = 0 \<longrightarrow>
      confidence_level (determine_confidence_level res) = ''Very High'') \<and>
   (consistent_markers res = 19 \<and> inconsistent_markers res = 0 \<longrightarrow>
      confidence_level (determine_confidence_level res) = ''High'') \<and>
   (analyze_parentage self mn fn on = Inr (Some r, concl, self') \<longrightarrow>
      confidence_level r =
        (if inconsistent_markers r = 0 \<and> 20 \<le> consistent_markers r then ''Very High''
         else if inconsistent_markers r \<le> 1 \<and> 15 \<le> consistent_markers r then ''High''
         else if inconsistent_markers r \<le> 2 \<and> 10 \<le> consistent_markers r then ''Moderate''
         else ''Low''))"
proof -
  have "confidence_level r =
        (if inconsistent_markers r = 0 \<and> 20 \<le> consistent_markers r then ''Very High''
         else if inconsistent_markers r \<le> 1 \<and> 15 \<le> consistent_markers r then ''High''
         else if inconsistent_markers r \<le> 2 \<and> 10 \<le> consistent_markers r then ''Moderate''
         else ''Low'')"
    if run: "analyze_parentage self mn fn on = Inr (Some r, concl, self')"
  proof -
    from analyze_parentage_loop [OF run] obtain res2 where
      r: "r = determine_confidence_level res2"
      by (elim exE conjE)
    show ?thesis
      unfolding r determine_confidence_level_keeps by (rule confidence_level_determined)
  qed
  then show ?thesis by (simp add: confidence_level_determined)
qed

theorem confidence_level_precedence_witness:
  "confidence_level (determine_confidence_level
      (sample_results\<lparr>consistent_markers := 20, inconsistent_markers := 0\<rparr>)) = ''Very High'' \<and>
   confidence_level (determine_confidence_level
      (sample_results\<lparr>consistent_markers := 19, inconsistent_markers := 0\<rparr>)) = ''High'' \<and>
   confidence_level (determine_confidence_level
      (sample_results\<lparr>consistent_markers := 10, inconsistent_markers := 2\<rparr>)) = ''Moderate'' \<and>
   analyze_parentage sample_analyzer ''Mother'' ''Father'' ''Offspring''
     = Inr (Some sample_results, Some ''INCONCLUSIVE'',
            sample_analyzer\<lparr>analysis_results := Some sample_results\<rparr>) \<and>
   confidence_level sample_results = ''Low''"
  using
    confidence_level_precedence [where res = "sample_results\<lparr>consistent_markers := 20, inconsistent_markers := 0\<rparr>"
      and c = 20 and i = 0 and self = sample_analyzer and mn = "''Mother''" and fn = "''Father''"
      and on = "''Offspring''" and r = sample_results and concl = "Some ''INCONCLUSIVE''"
      and self' = "sample_analyzer\<lparr>analysis_results := Some sample_results\<rparr>"]
    confidence_level_precedence [where res = "sample_results\<lparr>consistent_markers := 19, inconsistent_markers := 0\<rparr>"
      and c = 19 and i = 0 and self = sample_analyzer and mn = "''Mother''" and fn = "''Father''"
      and on = "''Offspring''" and r = sample_results and concl = "Some ''INCONCLUSIVE''"
      and self' = "sample_analyzer\<lparr>analysis_results := Some sample_results\<rparr>"]
    confidence_level_precedence [where res = "sample_results\<lparr>consistent_markers := 10, inconsistent_markers := 2\<rparr>"
      and c = 10 and i = 2 and self = sample_analyzer and mn = "''Mother''" and fn = "''Father''"
      and on = "''Offspring''" and r = sample_results and concl = "Some ''INCONCLUSIVE''"
      and self' = "sample_analyzer\<lparr>analysis_results := Some sample_results\<rparr>"]
    sample_run
  by (simp add: sample_results_def)

text \<open>
  C4: a common marker \<open>m\<close> at which one of the three cells does not parse is skipped.
  The loop body leaves the accumulator as it is; the call (the common markers being of
  one type, so that they can be sorted) returns a result that counts \<open>m\<close> once in
  \<open>total_common_markers\<close>, has no entry for \<open>m\<close> in \<open>marker_details\<close> or \<open>exclusions\<close>, and
  whose testable, consistent and inconsistent counts and two lists are those of the loop
  run over the common markers without \<open>m\<close>, whatever the other two cells hold.
\<close>

theorem unparsable_marker_skipped:
  assumes "profiles self mn = Some mp" and "profiles self fn = Some fp"
    and "profiles self on = Some op"
    and "m \<in> common_markers (data mp) (data fp) (data op)"
    and "to_dict (data mp) m = Some mc" and "to_dict (data fp) m = Some fc"
    and "to_dict (data op) m = Some oc"
    and "parse_genotype mc = None \<or> parse_genotype fc = None \<or> parse_genotype oc = None"
    and "\<not> mixed_types (common_markers (data mp) (data fp) (data op))"
  shows "analyze_marker (to_dict (data mp)) (to_dict (data fp)) (to_dict (data op)) acc m = Inr acc \<and>
    (\<exists>r concl res1.
       analyze_parentage self mn fn on =
         Inr (Some r, Some concl, self\<lparr>analysis_results := Some r\<rparr>) \<and>
       total_common_markers r = card (common_markers (data mp) (data fp) (data op) - {m}) + 1 \<and>
       m \<notin> marker ` set (marker_details r) \<and> m \<notin> marker ` set (exclusions r) \<and>
       analyze_markers (to_dict (data mp)) (to_dict (data fp)) (to_dict (data op))
         (sorted_list_of_set (common_markers (data mp) (data fp) (data op) - {m}))
         (initial_results (card (common_markers (data mp) (data fp) (data op)))) = Inr res1 \<and>
       testable_markers r = testable_markers res1 \<and>
       consistent_markers r = consistent_markers res1 \<and>
       inconsistent_markers r = inconsistent_markers res1 \<and>
       marker_details r = marker_details res1 \<and>
       exclusions r = exclusions res1)"
proof -
  let ?C = "common_markers (data mp) (data fp) (data op)"
  let ?ml = "to_dict (data mp)" and ?fl = "to_dict (data fp)" and ?ol = "to_dict (data op)"
  have skip: "analyze_marker ?ml ?fl ?ol res m = Inr res" for res
    using assms(5-8) by (rule analyze_marker_skip)
  from analyze_data_result [OF assms(9)] obtain res1 v where
    l: "analyze_markers ?ml ?fl ?ol (sorted_list_of_set ?C) (initial_results (card ?C)) = Inr res1"
    and d: "analyze_data (data mp) (data fp) (data op) =
        Inr (determine_confidence_level (res1\<lparr>consistency_rate := Some v\<rparr>),
             determine_conclusion
               (determine_confidence_level (res1\<lparr>consistency_rate := Some v\<rparr>)))"
    by (elim exE conjE)
  define r where "r = determine_confidence_level (res1\<lparr>consistency_rate := Some v\<rparr>)"
  have run: "analyze_parentage self mn fn on =
               Inr (Some r, Some (determine_conclusion r), self\<lparr>analysis_results := Some r\<rparr>)"
    unfolding analyze_parentage_loaded [OF assms(1-3)] d r_def by simp
  have without: "sorted_list_of_set (?C - {m}) = remove1 m (sorted_list_of_set ?C)"
    by (rule sorted_list_of_set_remove) (rule common_markers_finite)
  have l': "analyze_markers ?ml ?fl ?ol (sorted_list_of_set (?C - {m})) (initial_results (card ?C))
              = Inr res1"
    unfolding without using analyze_markers_remove1 [of ?ml ?fl ?ol m, OF skip] l by simp
  have keeps: "total_common_markers res1 = card ?C"
    "marker ` set (marker_details res1) \<subseteq> ?C - {m}"
    "marker ` set (exclusions res1) \<subseteq> ?C - {m}"
    using analyze_markers_keeps [OF l'] common_markers_finite [of "data mp" "data fp" "data op"]
    by (simp_all add: initial_results_def)
  have "card ?C = Suc (card (?C - {m}))"
    by (rule card.remove [OF common_markers_finite assms(4)])
  then have card: "card ?C = card (?C - {m}) + 1"
    by simp
  have fields: "total_common_markers r = total_common_markers res1"
    "testable_markers r = testable_markers res1"
    "consistent_markers r = consistent_markers res1"
    "inconsistent_markers r = inconsistent_markers res1"
    "marker_details r = marker_details res1"
    "exclusions r = exclusions res1"
    unfolding r_def determine_confidence_level_keeps by simp_all
  have notin: "m \<notin> marker ` set (marker_details r)" "m \<notin> marker ` set (exclusions r)"
    unfolding fields using keeps(2,3) by blast+
  have total: "total_common_markers r = card (?C - {m}) + 1"
    unfolding fields keeps(1) by (rule card)
  show ?thesis
  proof (rule conjI)
    show "analyze_marker ?ml ?fl ?ol acc m = Inr acc" by (rule skip)
    show "\<exists>r concl res1.
       analyze_parentage self mn fn on =
         Inr (Some r, Some concl, self\<lparr>analysis_results := Some r\<rparr>) \<and>
       total_common_markers r = card (?C - {m}) + 1 \<and>
       m \<notin> marker ` set (marker_details r) \<and> m \<notin> marker ` set (exclusions r) \<and>
       analyze_markers ?ml ?fl ?ol (sorted_list_of_set (?C - {m}))
         (initial_results (card ?C)) = Inr res1 \<and>
       testable_markers r = testable_markers res1 \<and>
       consistent_markers r = consistent_markers res1 \<and>
       inconsistent_markers r = inconsistent_markers res1 \<and>
       marker_details r = marker_details res1 \<and>
       exclusions r = exclusions res1"
      by (rule exI [of _ r], rule exI [of _ "determine_conclusion r"], rule exI [of _ res1])
         (intro conjI run total notin l' fields(2-6))
  qed
qed

theorem unparsable_marker_skipped_witness:
  "Int_id 3 \<in> common_markers (data sample_mother) (data sample_father) (data sample_offspring) \<and>
   to_dict (data sample_mother) (Int_id 3) = Some (Text []) \<and> parse_genotype (Text []) = None \<and>
   \<not> mixed_types (common_markers (data sample_mother) (data sample_father)
                    (data sample_offspring)) \<and>
   analyze_marker (to_dict (data sample_mother)) (to_dict (data sample_father))
     (to_dict (data sample_offspring)) sample_results (Int_id 3) = Inr sample_results \<and>
   (\<exists>r concl res1.
      analyze_parentage sample_analyzer ''Mother'' ''Father'' ''Offspring'' =
        Inr (Some r, Some concl, sample_analyzer\<lparr>analysis_results := Some r\<rparr>) \<and>
      total_common_markers r =
        card (common_markers (data sample_mother) (data sample_father) (data sample_offspring)
              - {Int_id 3}) + 1 \<and>
      Int_id 3 \<notin> marker ` set (marker_details r) \<and> Int_id 3 \<notin> marker ` set (exclusions r) \<and>
      analyze_markers (to_dict (data sample_mother)) (to_dict (data sample_father))
        (to_dict (data sample_offspring))
        (sorted_list_of_set
           (common_markers (data sample_mother) (data sample_father) (data sample_offspring)
            - {Int_id 3}))
        (initial_results
           (card (common_markers (data sample_mother) (data sample_father)
                    (data sample_offspring)))) = Inr res1 \<and>
      testable_markers r = testable_markers res1 \<and>
      consistent_markers r = consistent_markers res1 \<and>
      inconsistent_markers r = inconsistent_markers res1 \<and>
      marker_details r = marker_details res1 \<and>
      exclusions r = exclusions res1)"
proof -
  have m: "Int_id 3 \<in> common_markers (data sample_mother) (data sample_father)
                        (data sample_offspring)"
    by (simp add: sample_common)
  have p: "parse_genotype (Text []) = None \<or> parse_genotype (Text ''A/A'') = None
             \<or> parse_genotype (Text ''C/C'') = None"
    by (simp add: sample_parse)
  have n: "\<not> mixed_types (common_markers (data sample_mother) (data sample_father)
                             (data sample_offspring))"
    unfolding sample_common by (rule sample_not_mixed)
  note t = unparsable_marker_skipped [OF sample_profiles m sample_lookup_3 p n, of sample_results]
  show ?thesis
    by (intro conjI m n sample_lookup_3(1) sample_parse(7) t [THEN conjunct1] t [THEN conjunct2])
qed

text \<open>
  C5: a missing value and the empty string parse to \<open>None\<close>; a string of three spaces
  does not: the emptiness test comes before the trimming, and the result is the genotype of
  two empty alleles, which the loop takes for a usable genotype.
\<close>

theorem parse_genotype_blank:
  "parse_genotype Missing = None \<and> parse_genotype (Text []) = None \<and>
   parse_genotype (Text ''   '') = Some [[], []] \<and>
   truthy (parse_genotype (Text ''   ''))"
  by (simp add: parse_genotype_def truthy_def str_strip_def str_isspace_def)

text \<open>
  C6: for allele tokens \<open>a\<close> and \<open>b\<close> (strings holding neither separator), the four
  strings \<open>a/b\<close>, \<open>b/a\<close>, \<open>a|b\<close> and \<open>b|a\<close> all parse to the same genotype, the two
  trimmed tokens in sorted order.
\<close>

theorem parse_genotype_order_independent:
  assumes "CHR ''/'' \<notin> set a" and "CHR ''|'' \<notin> set a"
    and "CHR ''/'' \<notin> set b" and "CHR ''|'' \<notin> set b"
  shows "parse_genotype (Text (a @ ''/'' @ b)) = Some (sort [str_strip a, str_strip b]) \<and>
         parse_genotype (Text (b @ ''/'' @ a)) = Some (sort [str_strip a, str_strip b]) \<and>
         parse_genotype (Text (a @ ''|'' @ b)) = Some (sort [str_strip a, str_strip b]) \<and>
         parse_genotype (Text (b @ ''|'' @ a)) = Some (sort [str_strip a, str_strip b])"
proof -
  have sw: "sort [str_strip b, str_strip a] = sort [str_strip a, str_strip b]"
    by (rule sort_pair_commute)
  have "parse_genotype (Text (a @ CHR ''/'' # b)) = Some (sort [str_strip a, str_strip b])"
    using assms by (intro parse_joined) simp_all
  moreover have "parse_genotype (Text (b @ CHR ''/'' # a)) = Some (sort [str_strip b, str_strip a])"
    using assms by (intro parse_joined) simp_all
  moreover have "parse_genotype (Text (a @ CHR ''|'' # b)) = Some (sort [str_strip a, str_strip b])"
    using assms by (intro parse_joined) simp_all
  moreover have "parse_genotype (Text (b @ CHR ''|'' # a)) = Some (sort [str_strip b, str_strip a])"
    using assms by (intro parse_joined) simp_all
  ultimately show ?thesis
    unfolding sw by (simp del: sort_key_simps)
qed

theorem parse_genotype_order_independent_witness:
  "CHR ''/'' \<notin> set ''B '' \<and> CHR ''|'' \<notin> set ''B '' \<and> CHR ''/'' \<notin> set '' A'' \<and> CHR ''|'' \<notin> set '' A'' \<and>
   parse_genotype (Text ''B / A'') = Some [''A'', ''B''] \<and>
   parse_genotype (Text '' A/B '') = Some [''A'', ''B''] \<and>
   parse_genotype (Text ''B | A'') = Some [''A'', ''B''] \<and>
   parse_genotype (Text '' A|B '') = Some [''A'', ''B'']"
proof -
  have s: "sort [str_strip ''B '', str_strip '' A''] = [''A'', ''B'']"
    by (simp add: str_strip_def str_isspace_def)
  show ?thesis
    using parse_genotype_order_independent [of "''B ''" "'' A''"]
    unfolding s by simp
qed

text \<open>
  C7: a non-empty string with neither separator parses to the homozygous pair of its
  trimmed self; a string with a slash is split at the slashes, whether or not it has a bar;
  a string with a bar and no slash is split at the bars; \<open>142\<close> parses to (142, 142).
\<close>

theorem parse_genotype_splitting_rule:
  "(s \<noteq> [] \<and> CHR ''/'' \<notin> set s \<and> CHR ''|'' \<notin> set s \<longrightarrow>
      parse_genotype (Text s) = Some [str_strip s, str_strip s]) \<and>
   (CHR ''/'' \<in> set s \<longrightarrow>
      parse_genotype (Text s) = Some (sort (map str_strip (str_split (str_strip s) CHR ''/'')))) \<and>
   (CHR ''/'' \<notin> set s \<and> CHR ''|'' \<in> set s \<longrightarrow>
      parse_genotype (Text s) = Some (sort (map str_strip (str_split (str_strip s) CHR ''|'')))) \<and>
   parse_genotype (Text ''142'') = Some [''142'', ''142'']"
proof -
  have m: "CHR ''/'' \<in> set (str_strip s) \<longleftrightarrow> CHR ''/'' \<in> set s"
          "CHR ''|'' \<in> set (str_strip s) \<longleftrightarrow> CHR ''|'' \<in> set s"
    by (simp_all add: in_set_str_strip slash_not_space)
  have ne: "CHR ''/'' \<in> set s \<or> CHR ''|'' \<in> set s \<Longrightarrow> s \<noteq> []" by auto
  have "parse_genotype (Text ''142'') = Some [''142'', ''142'']"
    by (simp add: parse_genotype_def Let_def str_strip_def str_isspace_def)
  moreover have "s \<noteq> [] \<and> CHR ''/'' \<notin> set s \<and> CHR ''|'' \<notin> set s \<longrightarrow>
      parse_genotype (Text s) = Some [str_strip s, str_strip s]"
    by (simp add: parse_genotype_def Let_def m str_strip_idem)
  moreover have "CHR ''/'' \<in> set s \<longrightarrow>
      parse_genotype (Text s) = Some (sort (map str_strip (str_split (str_strip s) CHR ''/'')))"
    using ne by (auto simp add: parse_genotype_def Let_def m simp del: sort_key_simps)
  moreover have "CHR ''/'' \<notin> set s \<and> CHR ''|'' \<in> set s \<longrightarrow>
      parse_genotype (Text s) = Some (sort (map str_strip (str_split (str_strip s) CHR ''|'')))"
    using ne by (auto simp add: parse_genotype_def Let_def m simp del: sort_key_simps)
  ultimately show ?thesis by blast
qed

theorem parse_genotype_splitting_rule_witness:
  "parse_genotype (Text '' 142 '') = Some [''142'', ''142''] \<and>
   parse_genotype (Text ''A|B/C'') = Some [''A|B'', ''C''] \<and>
   parse_genotype (Text ''B|A'') = Some [''A'', ''B'']"
proof -
  have e: "str_strip '' 142 '' = ''142''"
    "sort (map str_strip (str_split (str_strip ''A|B/C'') CHR ''/'')) = [''A|B'', ''C'']"
    "sort (map str_strip (str_split (str_strip ''B|A'') CHR ''|'')) = [''A'', ''B'']"
    by (simp_all add: str_strip_def str_isspace_def str_split_def)
  show ?thesis
    using parse_genotype_splitting_rule [of "'' 142 ''"]
      parse_genotype_splitting_rule [of "''A|B/C''"]
      parse_genotype_splitting_rule [of "''B|A''"]
    unfolding e by simp
qed

text \<open>
  C8: the division is guarded. Calculating the statistics never raises
  \<open>ZeroDivisionError\<close>, nor does any call; with no testable marker the rate is the integer
  0; and in every returned result the rate is \<open>consistent / testable * 100\<close> in Python's
  arithmetic (the quotient rounded to a double, times 100, rounded again) when there is a
  testable marker, and 0 when there is none.
\<close>

theorem consistency_rate_guarded:
  "analyze_parentage self mn fn on \<noteq> Inl ZeroDivisionError \<and>
   calculate_statistics res \<noteq> Inl ZeroDivisionError \<and>
   (testable_markers res = 0 \<longrightarrow>
      calculate_statistics res = Inr (res\<lparr>consistency_rate := Some (Int_number 0)\<rparr>)) \<and>
   (analyze_parentage self mn fn on = Inr (Some r, concl, self') \<longrightarrow>
      (0 < testable_markers r \<longrightarrow>
         (\<exists>q. truediv (consistent_markers r) (testable_markers r) = Inr q \<and>
              consistency_rate r = Some (Float_number (float_times_100 q)))) \<and>
      (testable_markers r = 0 \<longrightarrow> consistency_rate r = Some (Int_number 0)))"
proof -
  have a: "analyze_parentage self mn fn on \<noteq> Inl ZeroDivisionError"
    using analyze_parentage_error [of self mn fn on ZeroDivisionError] by auto
  have b: "calculate_statistics res \<noteq> Inl ZeroDivisionError"
    by (rule calculate_statistics_no_zero_division)
  have c: "testable_markers res = 0 \<longrightarrow>
      calculate_statistics res = Inr (res\<lparr>consistency_rate := Some (Int_number 0)\<rparr>)"
    by (simp add: calculate_statistics_def)
  have d: "(0 < testable_markers r \<longrightarrow>
         (\<exists>q. truediv (consistent_markers r) (testable_markers r) = Inr q \<and>
              consistency_rate r = Some (Float_number (float_times_100 q)))) \<and>
      (testable_markers r = 0 \<longrightarrow> consistency_rate r = Some (Int_number 0))"
    if run: "analyze_parentage self mn fn on = Inr (Some r, concl, self')"
  proof -
    from analyze_parentage_loop [OF run] obtain res1 v where
      s: "calculate_statistics res1 = Inr (res1\<lparr>consistency_rate := Some v\<rparr>)"
      and r: "r = determine_confidence_level (res1\<lparr>consistency_rate := Some v\<rparr>)"
      by (elim exE conjE)
    have f: "testable_markers r = testable_markers res1"
      "consistent_markers r = consistent_markers res1"
      "consistency_rate r = consistency_rate (res1\<lparr>consistency_rate := Some v\<rparr>)"
      unfolding r determine_confidence_level_keeps by simp_all
    show ?thesis
      unfolding f by (rule calculate_statistics_rate [OF s])
  qed
  from a b c d show ?thesis by blast
qed

theorem consistency_rate_guarded_witness:
  "calculate_statistics (initial_results 0 :: marker_id results)
     = Inr ((initial_results 0)\<lparr>consistency_rate := Some (Int_number 0)\<rparr>) \<and>
   analyze_parentage sample_analyzer ''Mother'' ''Father'' ''Offspring''
     = Inr (Some sample_results, Some ''INCONCLUSIVE'',
            sample_analyzer\<lparr>analysis_results := Some sample_results\<rparr>) \<and>
   truediv (consistent_markers sample_results) (testable_markers sample_results)
     = Inr (Finite (1 / 2)) \<and>
   consistency_rate sample_results = Some (Float_number (float_times_100 (Finite (1 / 2)))) \<and>
   consistency_rate sample_results = Some (Float_number (Finite 50)) \<and>
   truediv 11 20 = Inr (Finite (2476979795053773 / 4503599627370496)) \<and>
   float_times_100 (Finite (2476979795053773 / 4503599627370496))
     = Finite (7740561859543041 / 140737488355328)"
proof -
  note t = consistency_rate_guarded [of sample_analyzer "''Mother''" "''Father''" "''Offspring''"
      "initial_results 0" sample_results "Some ''INCONCLUSIVE''"
      "sample_analyzer\<lparr>analysis_results := Some sample_results\<rparr>"]
  have z: "testable_markers (initial_results 0 :: marker_id results) = 0"
    by (simp add: initial_results_def)
  have c: "calculate_statistics (initial_results 0 :: marker_id results)
     = Inr ((initial_results 0)\<lparr>consistency_rate := Some (Int_number 0)\<rparr>)"
    using t z by blast
  have p: "0 < testable_markers sample_results" by (simp add: sample_results_def)
  have q: "truediv (consistent_markers sample_results) (testable_markers sample_results)
     = Inr (Finite (1 / 2))"
    using sample_quotient by (simp add: sample_results_def)
  obtain q' where
    "truediv (consistent_markers sample_results) (testable_markers sample_results) = Inr q'"
    "consistency_rate sample_results = Some (Float_number (float_times_100 q'))"
    using t sample_run p by blast
  then have r: "consistency_rate sample_results
                  = Some (Float_number (float_times_100 (Finite (1 / 2))))"
    using q by simp
  show ?thesis
    by (intro conjI c sample_run q r rounded_quotient rounded_percent)
       (simp add: sample_results_def)
qed




text \<open>
  C10: in every returned result the testable count is the sum of the consistent and the
  inconsistent counts, \<open>marker_details\<close> has as many entries as there are testable markers,
  \<open>exclusions\<close> as many as there are inconsistent ones, every exclusion is inconsistent and
  is an entry of \<open>marker_details\<close>, and the confidence level is one of the four levels,
  never \<open>Unknown\<close>.
\<close>

theorem result_invariants:
  assumes "analyze_parentage self mn fn on = Inr (Some r, concl, self')"
  shows "testable_markers r = consistent_markers r + inconsistent_markers r \<and>
         length (marker_details r) = testable_markers r \<and>
         length (exclusions r) = inconsistent_markers r \<and>
         (\<forall>x \<in> set (exclusions r). \<not> consistent x \<and> x \<in> set (marker_details r)) \<and>
         confidence_level r \<in> {''Very High'', ''High'', ''Moderate'', ''Low''} \<and>
         confidence_level r \<noteq> ''Unknown''"
proof -
  from analyze_parentage_loop [OF assms]
  obtain mp fp op :: "marker_id profile" and res1 v where
    l: "analyze_markers (to_dict (data mp)) (to_dict (data fp)) (to_dict (data op))
             (sorted_list_of_set (common_markers (data mp) (data fp) (data op)))
             (initial_results (card (common_markers (data mp) (data fp) (data op)))) = Inr res1"
    and r: "r = determine_confidence_level (res1\<lparr>consistency_rate := Some v\<rparr>)"
    by (elim exE conjE)
  have t: "testable_markers res1 = consistent_markers res1 + inconsistent_markers res1
       \<and> length (marker_details res1) = testable_markers res1
       \<and> length (exclusions res1) = inconsistent_markers res1
       \<and> (\<forall>x \<in> set (exclusions res1). \<not> consistent x \<and> x \<in> set (marker_details res1))"
    by (rule analyze_markers_tally [OF l]) (simp_all add: initial_results_def)
  have c: "confidence_level r \<in> {''Very High'', ''High'', ''Moderate'', ''Low''}"
    unfolding r confidence_level_determined by simp
  then have "confidence_level r \<noteq> ''Unknown''" by auto
  with t c show ?thesis unfolding r determine_confidence_level_keeps by simp
qed

theorem result_invariants_witness:
  "analyze_parentage sample_analyzer ''Mother'' ''Father'' ''Offspring''
     = Inr (Some sample_results, Some ''INCONCLUSIVE'',
            sample_analyzer\<lparr>analysis_results := Some sample_results\<rparr>) \<and>
   testable_markers sample_results = 2 \<and>
   testable_markers sample_results
     = consistent_markers sample_results + inconsistent_markers sample_results \<and>
   length (marker_details sample_results) = testable_markers sample_results \<and>
   length (exclusions sample_results) = inconsistent_markers sample_results \<and>
   exclusions sample_results = [sample_marker_2] \<and>
   \<not> consistent sample_marker_2 \<and> sample_marker_2 \<in> set (marker_details sample_results) \<and>
   confidence_level sample_results = ''Low''"
  using result_invariants [OF sample_run] sample_run
  by (simp add: sample_results_def)

end
